theory Spec2Isabelle
  imports Complex_Main "HOL-Library.AList" "HOL-Library.Sublist"
begin

section \<open>Python values shared by the settings and mesh pipelines\<close>

text \<open>
  The two-valued spin enumeration of pymatgen; \<open>spin_name\<close> is its \<open>.name\<close> attribute.
\<close>

datatype spin = Up | Down

fun spin_name :: "spin \<Rightarrow> string" where
  "spin_name Up = ''up''"
| "spin_name Down = ''down''"

text \<open>
  A Python \<open>dict\<close> keeps insertion order and overwrites in place, so it is an association
  list written with \<open>AList.update\<close> (\<open>d[k] = v\<close>).
\<close>

text \<open>Exceptions are values; a function that can raise returns \<open>pyerror + 'a\<close>.\<close>

datatype pyerror =
    ValueError string
  | KeyError string
  | IndexError
  | TypeError
  | OverflowError
  | UnicodeError

subsection \<open>String operations of Python\<close>

text \<open>\<^verbatim>\<open>sub in s\<close>: \<open>sub\<close> occurs in \<open>s\<close> as a contiguous piece.\<close>

fun py_in :: "string \<Rightarrow> string \<Rightarrow> bool" where
  "py_in sub [] = (sub = [])"
| "py_in sub (c # cs) = (prefix sub (c # cs) \<or> py_in sub cs)"

text \<open>\<^verbatim>\<open>s.split(c)\<close> for a separator of one character; the result is never empty.\<close>

fun split_on :: "char \<Rightarrow> string \<Rightarrow> string list" where
  "split_on c [] = [[]]"
| "split_on c (x # xs) =
     (if x = c then [] # split_on c xs
      else (x # hd (split_on c xs)) # tl (split_on c xs))"

text \<open>
  \<^verbatim>\<open>s.replace(old, new)\<close>: every occurrence of \<open>old\<close>, found from the left without
  overlap, is replaced; an empty \<open>old\<close> matches before every character and at the end.
\<close>

function py_replace :: "string \<Rightarrow> string \<Rightarrow> string \<Rightarrow> string" where
  "py_replace old new [] = (if old = [] then new else [])"
| "py_replace old new (c # cs) =
     (if old = [] then new @ c # py_replace old new cs
      else if prefix old (c # cs) then new @ py_replace old new (drop (length old) (c # cs))
      else c # py_replace old new cs)"
  by pat_completeness auto
termination
  by (relation "measure (\<lambda>(old, new, s). length s)") auto

text \<open>
  \<^verbatim>\<open>s.strip()\<close> removes leading and trailing whitespace: the characters for which
  \<open>str.isspace\<close> holds, here those below code point 256.
\<close>

definition py_isspace :: "char \<Rightarrow> bool" where
  "py_isspace c \<longleftrightarrow> of_char c \<in> set [9, 10, 11, 12, 13, 28, 29, 30, 31, 32, 133, 160 :: nat]"

definition py_strip :: "string \<Rightarrow> string" where
  "py_strip s = rev (dropWhile py_isspace (rev (dropWhile py_isspace s)))"

section \<open>Casting loaded data back to arrays: \<open>cast_dict_ndarray\<close>\<close>

text \<open>
  Keys of a loaded document are strings or spins. Values are nested mappings, lists, arrays
  or anything else; the payload \<open>'a\<close> of a list or array is never inspected.
\<close>

datatype dkey = KStr string | KSpin spin

datatype 'a pyval =
    PyNone
  | PyDict "(dkey \<times> 'a pyval) list"
  | PyList 'a
  | NdArray 'a
  | PyOther 'a

text \<open>
  \<^verbatim>\<open>if isinstance(k, str) and k in ["up", "down"]:
    k = Spin.up if "k" == "up" else Spin.up\<close>
  The condition of the conditional expression compares the string literal \<open>"k"\<close>, not the
  variable.
\<close>

fun cast_key :: "dkey \<Rightarrow> dkey" where
  "cast_key (KStr k) =
     (if k \<in> set [''up'', ''down'']
      then (if ''k'' = ''up'' then KSpin Up else KSpin Up)
      else KStr k)"
| "cast_key (KSpin s) = KSpin s"

text \<open>
  The loop \<^verbatim>\<open>for k, v in d.items()\<close> with the accumulator \<open>new_d\<close>, and the cast of one
  value (a nested mapping recurses, a list becomes an array).
\<close>

fun cast_items :: "(dkey \<times> 'a pyval) list \<Rightarrow> (dkey \<times> 'a pyval) list \<Rightarrow> (dkey \<times> 'a pyval) list"
  and cast_val :: "'a pyval \<Rightarrow> 'a pyval" where
  "cast_items [] new_d = new_d"
| "cast_items ((k, v) # d) new_d = cast_items d (AList.update (cast_key k) (cast_val v) new_d)"
| "cast_val (PyDict d) = PyDict (cast_items d [])"
| "cast_val (PyList x) = NdArray x"
| "cast_val v = v"

definition cast_dict_ndarray :: "(dkey \<times> 'a pyval) list option \<Rightarrow> (dkey \<times> 'a pyval) list option" where
  "cast_dict_ndarray d = (case d of None \<Rightarrow> None | Some kvs \<Rightarrow> Some (cast_items kvs []))"

section \<open>The mesh codec: \<open>write_mesh_data\<close> and \<open>load_mesh_data\<close>\<close>

subsection \<open>Values held in memory\<close>

text \<open>
  A numeric numpy array is its shape and its items; the number type \<open>'n\<close> is never
  inspected by the codec. A list or tuple holds strings or numbers. A scalar is a Python
  \<open>bool\<close>, a \<open>numpy.bool_\<close> or a number. A Python \<open>bool\<close> is one of the two singleton
  objects \<open>True\<close> and \<open>False\<close>; a \<open>numpy.bool_\<close> is a different object with the same
  truth value, so \<^verbatim>\<open>x is False\<close> holds for \<open>PyBool False\<close> only.
\<close>

datatype 'n ndarray = NdArr (shape: "nat list") (items: "'n list")

datatype 'n pyseq = Strs "string list" | Nums "'n list"

datatype 'n scalar = PyBool bool | NpBool bool | Num 'n

datatype ('n, 's) pyobj =
    Ndarray "'n ndarray"
  | BytesArray "string list"
  | TextArray "string list"
  | Structure 's
  | PySeq "'n pyseq"
  | NoneVal
  | Scalar "'n scalar"
  | Bytes string

text \<open>
  A value of the mesh mapping: a plain entry, or a \<open>dict\<close> from spins to plain entries.
\<close>

datatype ('n, 's) mesh_value =
    Plain "('n, 's) pyobj"
  | SpinDict "(spin \<times> ('n, 's) pyobj) list"

type_synonym ('n, 's) mesh = "(string \<times> ('n, 's) mesh_value) list"

subsection \<open>The container\<close>

text \<open>
  What a dataset of the container holds: a numeric array, an array of fixed-width byte
  strings, one byte string, a boolean or a number. A file is its datasets by name, in the
  order in which \<open>f.items()\<close> yields them; the flag of a dataset says whether it was
  created with \<open>compression="gzip"\<close>. Names are flat: a name is not split at \<open>/\<close>.
\<close>

datatype 'n h5value =
    HArray "'n ndarray"
  | HBytes "string list"
  | HString string
  | HBool bool
  | HNum 'n

type_synonym 'n h5file = "(string \<times> 'n h5value \<times> bool) list"

text \<open>
  \<^verbatim>\<open>f.create_dataset(name, data=..., compression=...)\<close> and \<^verbatim>\<open>f[name] = ...\<close> both
  refuse a name that exists. Filters are refused on a scalar dataset: an array of shape
  \<open>()\<close> cannot be compressed.
\<close>

definition create_dataset :: "'n h5file \<Rightarrow> string \<Rightarrow> 'n h5value \<Rightarrow> bool \<Rightarrow> pyerror + 'n h5file" where
  "create_dataset f name v gzip =
     (if name \<in> fst ` set f then Inl (ValueError ''Unable to create dataset (name already exists)'')
      else Inr (f @ [(name, v, gzip)]))"

text \<open>
  \<^verbatim>\<open>data[()]\<close>: the whole dataset as a numpy object. A stored boolean comes back as a
  \<open>numpy.bool_\<close>, a stored byte string as \<open>numpy.bytes_\<close>.
\<close>

fun h5_read :: "'n h5value \<Rightarrow> ('n, 's) pyobj" where
  "h5_read (HArray a) = Ndarray a"
| "h5_read (HBytes bs) = BytesArray bs"
| "h5_read (HString t) = Bytes t"
| "h5_read (HBool b) = Scalar (NpBool b)"
| "h5_read (HNum n) = Scalar (Num n)"

subsection \<open>Collaborators outside the module\<close>

text \<open>
  The crystal-structure codec (\<open>Structure.to_json\<close>, \<open>Structure.from_str\<close>) and the two
  numpy conversions that \<open>read_data\<close> applies to whatever it finds under a reserved name:
  \<open>np.string_(d).decode()\<close> and \<open>d.astype("U13")\<close>, for \<open>d\<close> that is not already byte
  strings. They are parameters of the codec.
\<close>

record ('n, 's) externals =
  to_json :: "'s \<Rightarrow> string"
  from_str :: "string \<Rightarrow> pyerror + 's"
  np_string_decode :: "'n h5value \<Rightarrow> pyerror + string"
  astype_U13 :: "'n h5value \<Rightarrow> pyerror + ('n, 's) pyobj"

text \<open>
  \<open>amset.constants.str_to_spin\<close> is not among the sources. Modelled from the spec: the
  spin tag is determined from the suffix, \<open>up\<close> or \<open>down\<close>.
\<close>

definition str_to_spin :: "(string \<times> spin) list" where
  "str_to_spin = [(''up'', Up), (''down'', Down)]"

subsection \<open>Writing\<close>

definition is_ascii :: "string \<Rightarrow> bool" where
  "is_ascii s \<longleftrightarrow> (\<forall>c \<in> set s. of_char c < (128::nat))"

text \<open>A fixed-width numpy string does not keep trailing NUL characters.\<close>

definition rstrip_nul :: "string \<Rightarrow> string" where
  "rstrip_nul s = rev (dropWhile (\<lambda>c. of_char c = (0::nat)) (rev s))"

text \<open>
  \<^verbatim>\<open>def add_data(name, data)\<close>, the branches in the order of the source. A structure is
  stored under the literal name \<open>structure\<close>, whatever \<open>name\<close> is. For a list or tuple,
  \<open>data[0]\<close> of the converted array raises \<open>IndexError\<close> when it is empty, and
  \<open>astype("S")\<close> encodes ASCII only.
\<close>

fun add_data :: "('n, 's) externals \<Rightarrow> 'n h5file \<Rightarrow> string \<Rightarrow> ('n, 's) pyobj \<Rightarrow> pyerror + 'n h5file" where
  "add_data ext f name (Ndarray a) =
     (if shape a = [] then Inl TypeError else create_dataset f name (HArray a) True)"
| "add_data ext f name (BytesArray bs) = create_dataset f name (HBytes bs) True"
| "add_data ext f name (TextArray ts) = Inl TypeError"
| "add_data ext f name (Structure st) = create_dataset f ''structure'' (HString (to_json ext st)) False"
| "add_data ext f name (PySeq (Strs ss)) =
     (if ss = [] then Inl IndexError
      else if \<not> list_all is_ascii ss then Inl UnicodeError
      else create_dataset f name (HBytes (map rstrip_nul ss)) False)"
| "add_data ext f name (PySeq (Nums ns)) =
     (if ns = [] then Inl IndexError
      else create_dataset f name (HArray (NdArr [length ns] ns)) False)"
| "add_data ext f name NoneVal = create_dataset f name (HBool False) False"
| "add_data ext f name (Scalar (PyBool b)) = create_dataset f name (HBool b) False"
| "add_data ext f name (Scalar (NpBool b)) = create_dataset f name (HBool b) False"
| "add_data ext f name (Scalar (Num n)) = create_dataset f name (HNum n) False"
| "add_data ext f name (Bytes t) = create_dataset f name (HString t) False"

text \<open>
  The inner loop \<^verbatim>\<open>for spin, spin_value in value.items()\<close>. Its first statement assigns
  to \<open>key\<close>, the variable of the outer loop, so the next spin starts from the name that
  the previous spin produced.
\<close>

fun write_spins :: "('n, 's) externals \<Rightarrow> 'n h5file \<Rightarrow> string \<Rightarrow> (spin \<times> ('n, 's) pyobj) list \<Rightarrow> pyerror + 'n h5file" where
  "write_spins ext f key [] = Inr f"
| "write_spins ext f key ((spin, spin_value) # rest) =
     (let key' = key @ ''_'' @ spin_name spin in
      case add_data ext f key' spin_value of
        Inl e \<Rightarrow> Inl e
      | Inr f' \<Rightarrow> write_spins ext f' key' rest)"

text \<open>The outer loop \<^verbatim>\<open>for key, value in mesh_data.items()\<close>.\<close>

fun write_items :: "('n, 's) externals \<Rightarrow> 'n h5file \<Rightarrow> ('n, 's) mesh \<Rightarrow> pyerror + 'n h5file" where
  "write_items ext f [] = Inr f"
| "write_items ext f ((key, value) # rest) =
     (case (case value of
              SpinDict d \<Rightarrow> write_spins ext f key d
            | Plain data \<Rightarrow> add_data ext f key data) of
        Inl e \<Rightarrow> Inl e
      | Inr f' \<Rightarrow> write_items ext f' rest)"

text \<open>The file is opened with mode \<open>"w"\<close>: it starts empty.\<close>

definition write_mesh_data :: "('n, 's) externals \<Rightarrow> ('n, 's) mesh \<Rightarrow> pyerror + 'n h5file" where
  "write_mesh_data ext mesh_data = write_items ext [] mesh_data"

subsection \<open>Reading\<close>

text \<open>
  \<^verbatim>\<open>def read_data(name, data)\<close>. Under \<open>vb_idx\<close> the test is \<^verbatim>\<open>d is not False\<close>, an
  identity test against the singleton \<open>False\<close>.
\<close>

definition read_data :: "('n, 's) externals \<Rightarrow> string \<Rightarrow> 'n h5value \<Rightarrow> pyerror + ('n, 's) pyobj" where
  "read_data ext name data =
     (if name = ''structure'' then
        (case (case data of HString t \<Rightarrow> Inr t | _ \<Rightarrow> np_string_decode ext data) of
           Inl e \<Rightarrow> Inl e
         | Inr data_str \<Rightarrow> map_sum id Structure (from_str ext data_str))
      else if name = ''scattering_labels'' then
        (case data of
           HBytes bs \<Rightarrow> if list_all is_ascii bs then Inr (TextArray (map (take 13) bs)) else Inl UnicodeError
         | _ \<Rightarrow> astype_U13 ext data)
      else if name = ''vb_idx'' then
        (let d = h5_read data in Inr (if d \<noteq> Scalar (PyBool False) then d else NoneVal))
      else Inr (h5_read data))"

text \<open>
  One round of \<^verbatim>\<open>for key, value in f.items()\<close>. In the spin branch the right-hand side
  \<open>read_data(key, value)\<close> is evaluated first, with the stripped key; then
  \<open>mesh_data[key][spin] = ...\<close> needs the entry under \<open>key\<close> to be a \<open>dict\<close>: item
  assignment with a spin fails on anything else (a numpy array refuses the index, the
  other values have no item assignment).
\<close>

definition load_entry :: "('n, 's) externals \<Rightarrow> ('n, 's) mesh \<Rightarrow> string \<times> 'n h5value \<times> bool \<Rightarrow> pyerror + ('n, 's) mesh" where
  "load_entry ext mesh_data kv =
     (let key = fst kv; val = fst (snd kv) in
      if py_in ''_up'' key \<or> py_in ''_down'' key then
        (case map_of str_to_spin (last (split_on CHR ''_'' key)) of
           None \<Rightarrow> Inl (KeyError (last (split_on CHR ''_'' key)))
         | Some spin \<Rightarrow>
             let key = py_replace (''_'' @ spin_name spin) [] key;
                 mesh_data = (if key \<notin> fst ` set mesh_data
                              then AList.update key (SpinDict []) mesh_data else mesh_data)
             in (case read_data ext key val of
                   Inl e \<Rightarrow> Inl e
                 | Inr v \<Rightarrow>
                     (case map_of mesh_data key of
                        Some (SpinDict d) \<Rightarrow> Inr (AList.update key (SpinDict (AList.update spin v d)) mesh_data)
                      | Some (Plain (Ndarray _)) \<Rightarrow> Inl IndexError
                      | Some (Plain (BytesArray _)) \<Rightarrow> Inl IndexError
                      | Some (Plain (TextArray _)) \<Rightarrow> Inl IndexError
                      | _ \<Rightarrow> Inl TypeError)))
      else
        (case read_data ext key val of
           Inl e \<Rightarrow> Inl e
         | Inr v \<Rightarrow> Inr (AList.update key (Plain v) mesh_data)))"

fun load_items :: "('n, 's) externals \<Rightarrow> ('n, 's) mesh \<Rightarrow> 'n h5file \<Rightarrow> pyerror + ('n, 's) mesh" where
  "load_items ext mesh_data [] = Inr mesh_data"
| "load_items ext mesh_data (kv # rest) =
     (case load_entry ext mesh_data kv of
        Inl e \<Rightarrow> Inl e
      | Inr mesh_data' \<Rightarrow> load_items ext mesh_data' rest)"

definition load_mesh_data :: "('n, 's) externals \<Rightarrow> 'n h5file \<Rightarrow> pyerror + ('n, 's) mesh" where
  "load_mesh_data ext f = load_items ext [] f"

subsection \<open>Mesh mappings that survive the round trip\<close>

text \<open>
  What a value looks like after a round trip when it comes back equal: a list of
  numbers is the array of its items, a list of strings an array of strings, a Python
  \<open>bool\<close> the \<open>numpy.bool_\<close> of the same truth value (\<open>np.array_equal\<close> and \<open>==\<close> hold
  between the two).
\<close>

fun as_read :: "('n, 's) pyobj \<Rightarrow> ('n, 's) pyobj" where
  "as_read (PySeq (Nums ns)) = Ndarray (NdArr [length ns] ns)"
| "as_read (PySeq (Strs ss)) = TextArray ss"
| "as_read (Scalar (PyBool b)) = Scalar (NpBool b)"
| "as_read v = v"

fun mesh_as_read :: "('n, 's) mesh_value \<Rightarrow> ('n, 's) mesh_value" where
  "mesh_as_read (Plain v) = Plain (as_read v)"
| "mesh_as_read (SpinDict d) = SpinDict (map (\<lambda>sv. (fst sv, as_read (snd sv))) d)"

text \<open>
  The plain values that the codec gives back under the key \<open>K\<close>: an array that is not
  zero-dimensional, a number or boolean, or a non-empty list of numbers, under any key
  but \<open>structure\<close> and \<open>scattering_labels\<close>; a non-empty list of ASCII strings of at most
  13 characters that do not end in NUL, under \<open>scattering_labels\<close>; a structure that its
  own codec gives back, under \<open>structure\<close>.
\<close>

fun plain_ok :: "('n, 's) externals \<Rightarrow> string \<Rightarrow> ('n, 's) pyobj \<Rightarrow> bool" where
  "plain_ok ext K (Ndarray a) \<longleftrightarrow> shape a \<noteq> [] \<and> K \<noteq> ''structure'' \<and> K \<noteq> ''scattering_labels''"
| "plain_ok ext K (Scalar c) \<longleftrightarrow> K \<noteq> ''structure'' \<and> K \<noteq> ''scattering_labels''"
| "plain_ok ext K (PySeq (Nums ns)) \<longleftrightarrow> ns \<noteq> [] \<and> K \<noteq> ''structure'' \<and> K \<noteq> ''scattering_labels''"
| "plain_ok ext K (PySeq (Strs ss)) \<longleftrightarrow>
     K = ''scattering_labels'' \<and> ss \<noteq> []
     \<and> list_all (\<lambda>s. is_ascii s \<and> length s \<le> 13 \<and> rstrip_nul s = s) ss"
| "plain_ok ext K (Structure st) \<longleftrightarrow> K = ''structure'' \<and> from_str ext (to_json ext st) = Inr st"
| "plain_ok ext K v \<longleftrightarrow> False"

fun is_structure :: "('n, 's) pyobj \<Rightarrow> bool" where
  "is_structure (Structure st) = True"
| "is_structure v = False"

text \<open>
  An entry of the mapping that comes back: its key contains neither \<open>_up\<close> nor \<open>_down\<close>,
  and its value is such a plain value, or a spin mapping with one spin of such a value
  that is not a structure.
\<close>

fun entry_ok :: "('n, 's) externals \<Rightarrow> string \<times> ('n, 's) mesh_value \<Rightarrow> bool" where
  "entry_ok ext (K, Plain v) \<longleftrightarrow> \<not> py_in ''_up'' K \<and> \<not> py_in ''_down'' K \<and> plain_ok ext K v"
| "entry_ok ext (K, SpinDict [(s, v)]) \<longleftrightarrow>
     \<not> py_in ''_up'' K \<and> \<not> py_in ''_down'' K \<and> plain_ok ext K v \<and> \<not> is_structure v"
| "entry_ok ext (K, SpinDict d) \<longleftrightarrow> False"

definition mesh_ok :: "('n, 's) externals \<Rightarrow> ('n, 's) mesh \<Rightarrow> bool" where
  "mesh_ok ext mesh_data \<longleftrightarrow> distinct (map fst mesh_data) \<and> list_all (entry_ok ext) mesh_data"

text \<open>The dataset that such an entry is stored as, with its name.\<close>

fun h5_of :: "('n, 's) externals \<Rightarrow> ('n, 's) pyobj \<Rightarrow> 'n h5value \<times> bool" where
  "h5_of ext (Ndarray a) = (HArray a, True)"
| "h5_of ext (BytesArray bs) = (HBytes bs, True)"
| "h5_of ext (TextArray ts) = (HBytes ts, False)"
| "h5_of ext (Structure st) = (HString (to_json ext st), False)"
| "h5_of ext (PySeq (Strs ss)) = (HBytes (map rstrip_nul ss), False)"
| "h5_of ext (PySeq (Nums ns)) = (HArray (NdArr [length ns] ns), False)"
| "h5_of ext NoneVal = (HBool False, False)"
| "h5_of ext (Scalar (PyBool b)) = (HBool b, False)"
| "h5_of ext (Scalar (NpBool b)) = (HBool b, False)"
| "h5_of ext (Scalar (Num n)) = (HNum n, False)"
| "h5_of ext (Bytes t) = (HString t, False)"

fun stored_as :: "('n, 's) externals \<Rightarrow> string \<times> ('n, 's) mesh_value \<Rightarrow> string \<times> 'n h5value \<times> bool" where
  "stored_as ext (K, Plain v) = (K, h5_of ext v)"
| "stored_as ext (K, SpinDict d) =
     (case d of (s, v) # _ \<Rightarrow> (K @ ''_'' @ spin_name s, h5_of ext v) | [] \<Rightarrow> (K, HBool False, False))"

text \<open>
  A stand-in for the collaborators, for running the codec on examples: a structure is
  its own text, and the two numpy conversions refuse everything.
\<close>

definition text_codec :: "(int, string) externals" where
  "text_codec = \<lparr>to_json = id, from_str = Inr,
     np_string_decode = (\<lambda>_. Inl TypeError), astype_U13 = (\<lambda>_. Inl TypeError)\<rparr>"

section \<open>Numbers and the compact string grammars\<close>

subsection \<open>Floating-point values\<close>

text \<open>
  A Python \<open>float\<close> is a finite number, an infinity or NaN. A finite float is taken
  with its exact value: rounding to 53 bits and overflow are not modelled, and the sign of
  zero is dropped.
\<close>

datatype pyfloat = Finite real | PosInf | NegInf | NaN

text \<open>
  \<open>int(x)\<close> truncates towards zero; it raises \<open>ValueError\<close> on NaN and \<open>OverflowError\<close> on
  an infinity.
\<close>

fun py_int :: "pyfloat \<Rightarrow> pyerror + int" where
  "py_int (Finite x) = Inr (if 0 \<le> x then \<lfloor>x\<rfloor> else \<lceil>x\<rceil>)"
| "py_int NaN = Inl (ValueError ''cannot convert float NaN to integer'')"
| "py_int PosInf = Inl OverflowError"
| "py_int NegInf = Inl OverflowError"

subsection \<open>\<open>float(s)\<close> on a string\<close>

text \<open>
  The grammar of the Python reference: after stripping whitespace, an optional sign, then
  \<open>inf\<close>, \<open>infinity\<close> or \<open>nan\<close> in any case, or a decimal number with an optional
  exponent. A run of digits may have single underscores between digits.
\<close>

definition is_digit :: "char \<Rightarrow> bool" where
  "is_digit c \<longleftrightarrow> c \<in> set ''0123456789''"

definition digit_val :: "char \<Rightarrow> nat" where
  "digit_val c = of_char c - 48"

definition nat_of_digits :: "string \<Rightarrow> nat" where
  "nat_of_digits ds = foldl (\<lambda>n c. 10 * n + digit_val c) 0 ds"

text \<open>
  \<open>digits_tail\<close> reads what may follow the first digit of a run; \<open>digitpart\<close> reads a
  whole run. Both return the digits read and the rest of the string.
\<close>

fun digits_tail :: "string \<Rightarrow> string \<times> string" where
  "digits_tail [] = ([], [])"
| "digits_tail [c] = (if is_digit c then ([c], []) else ([], [c]))"
| "digits_tail (c # d # cs) =
     (if is_digit c then (case digits_tail (d # cs) of (ds, r) \<Rightarrow> (c # ds, r))
      else if c = CHR ''_'' \<and> is_digit d then (case digits_tail cs of (ds, r) \<Rightarrow> (d # ds, r))
      else ([], c # d # cs))"

definition digitpart :: "string \<Rightarrow> string \<times> string" where
  "digitpart s =
     (case s of
        [] \<Rightarrow> ([], [])
      | c # cs \<Rightarrow> if is_digit c then (case digits_tail cs of (ds, r) \<Rightarrow> (c # ds, r)) else ([], s))"

definition parse_exponent :: "string \<Rightarrow> int option" where
  "parse_exponent r =
     (case r of
        [] \<Rightarrow> Some 0
      | c # r1 \<Rightarrow>
          if c = CHR ''e'' \<or> c = CHR ''E'' then
            (let neg = (case r1 of [] \<Rightarrow> False | s # _ \<Rightarrow> s = CHR ''-'');
                 r2 = (case r1 of [] \<Rightarrow> [] | s # r' \<Rightarrow> if s = CHR ''-'' \<or> s = CHR ''+'' then r' else r1)
             in case digitpart r2 of
                  (ds, r3) \<Rightarrow>
                    if ds \<noteq> [] \<and> r3 = []
                    then Some (if neg then - int (nat_of_digits ds) else int (nat_of_digits ds))
                    else None)
          else None)"

definition scale10 :: "real \<Rightarrow> int \<Rightarrow> real" where
  "scale10 m e = (if 0 \<le> e then m * 10 ^ nat e else m / 10 ^ nat (- e))"

definition parse_number :: "string \<Rightarrow> real option" where
  "parse_number s =
     (case digitpart s of
        (ip, r1) \<Rightarrow>
          (case (case r1 of
                   [] \<Rightarrow> ([], r1)
                 | c # r \<Rightarrow> if c = CHR ''.'' then digitpart r else ([], r1)) of
             (fp, r2) \<Rightarrow>
               if ip = [] \<and> fp = [] then None
               else (case parse_exponent r2 of
                       None \<Rightarrow> None
                     | Some e \<Rightarrow> Some (scale10 (real (nat_of_digits (ip @ fp))) (e - int (length fp))))))"

definition py_lower :: "string \<Rightarrow> string" where
  "py_lower s = map (\<lambda>c. if (65::nat) \<le> of_char c \<and> of_char c \<le> (90::nat)
                          then char_of (of_char c + (32::nat)) else c) s"

definition py_float :: "string \<Rightarrow> pyfloat option" where
  "py_float s =
     (let t = py_strip s;
          neg = (case t of [] \<Rightarrow> False | c # _ \<Rightarrow> c = CHR ''-'');
          u = (case t of [] \<Rightarrow> [] | c # r \<Rightarrow> if c = CHR ''-'' \<or> c = CHR ''+'' then r else t)
      in if py_lower u = ''inf'' \<or> py_lower u = ''infinity'' then Some (if neg then NegInf else PosInf)
         else if py_lower u = ''nan'' then Some NaN
         else map_option (\<lambda>x. Finite (if neg then - x else x)) (parse_number u))"

text \<open>\<^verbatim>\<open>list(map(float, tokens))\<close>: the first token that is not a number raises.\<close>

fun floats :: "string list \<Rightarrow> pyerror + pyfloat list" where
  "floats [] = Inr []"
| "floats (t # ts) =
     (case py_float t of
        None \<Rightarrow> Inl (ValueError ''could not convert string to float'')
      | Some x \<Rightarrow> (case floats ts of Inl e \<Rightarrow> Inl e | Inr xs \<Rightarrow> Inr (x # xs)))"

section \<open>The settings validator\<close>

subsection \<open>Setting values and the numpy functions used\<close>

text \<open>
  A setting is \<open>None\<close>, a number (\<open>int\<close>, \<open>float\<close> and their numpy kinds), a string, a
  list, a tuple or a numpy array of floats.
\<close>

datatype sval =
    SNone
  | SNum pyfloat
  | SStr string
  | SList "sval list"
  | STuple "sval list"
  | SArr "pyfloat ndarray"

type_synonym settings = "(string \<times> sval) list"

text \<open>
  The functions of numpy and pymatgen that the validator calls are parameters:
  \<open>np.geomspace\<close>, \<open>np.linspace\<close>, \<open>np.asarray(v)\<close> (also written \<open>np.array(v)\<close>),
  \<open>np.asarray(v, dtype=np.float)\<close> and \<open>Tensor.from_voigt\<close>.
\<close>

record npenv =
  geomspace :: "pyfloat \<Rightarrow> pyfloat \<Rightarrow> int \<Rightarrow> pyerror + pyfloat list"
  linspace :: "pyfloat \<Rightarrow> pyfloat \<Rightarrow> int \<Rightarrow> pyerror + pyfloat list"
  asarray :: "sval \<Rightarrow> pyerror + pyfloat ndarray"
  asarray_float :: "sval \<Rightarrow> pyerror + pyfloat ndarray"
  from_voigt :: "pyfloat ndarray \<Rightarrow> pyfloat ndarray"

definition bind_err :: "pyerror + 'a \<Rightarrow> ('a \<Rightarrow> pyerror + 'b) \<Rightarrow> pyerror + 'b" where
  "bind_err m f = (case m of Inl e \<Rightarrow> Inl e | Inr x \<Rightarrow> f x)"

text \<open>
  \<^verbatim>\<open>try: ... except ValueError: raise ValueError(msg)\<close>: a \<open>ValueError\<close> from the body
  is replaced, any other exception passes.
\<close>

definition except_ValueError :: "string \<Rightarrow> pyerror + 'a \<Rightarrow> pyerror + 'a" where
  "except_ValueError msg r = (case r of Inl (ValueError _) \<Rightarrow> Inl (ValueError msg) | _ \<Rightarrow> r)"

subsection \<open>\<open>parse_doping\<close>, \<open>parse_temperatures\<close>, \<open>parse_deformation_potential\<close>\<close>

text \<open>The first statement of each parser: \<^verbatim>\<open>s.strip().replace(" ", "")\<close>.\<close>

definition squeeze :: "string \<Rightarrow> string" where
  "squeeze s = py_replace '' '' [] (py_strip s)"

definition parse_doping :: "npenv \<Rightarrow> string \<Rightarrow> pyerror + pyfloat list" where
  "parse_doping np doping_str0 =
     (let doping_str = squeeze doping_str0 in
      except_ValueError (''ERROR: Unrecognised doping format: '' @ doping_str)
        (if py_in '':'' doping_str then
           bind_err (floats (split_on CHR '':'' doping_str)) (\<lambda>parts.
             if length parts \<noteq> 3 then Inl (ValueError [])
             else bind_err (py_int (parts ! 2)) (\<lambda>n. geomspace np (parts ! 0) (parts ! 1) n))
         else floats (split_on CHR '','' doping_str)))"

definition parse_temperatures :: "npenv \<Rightarrow> string \<Rightarrow> pyerror + pyfloat list" where
  "parse_temperatures np temperatures_str0 =
     (let temperatures_str = squeeze temperatures_str0 in
      except_ValueError (''ERROR: Unrecognised temperature format: '' @ temperatures_str)
        (if py_in '':'' temperatures_str then
           bind_err (floats (split_on CHR '':'' temperatures_str)) (\<lambda>parts.
             if length parts \<noteq> 3 then Inl (ValueError [])
             else bind_err (py_int (parts ! 2)) (\<lambda>n. linspace np (parts ! 0) (parts ! 1) n))
         else floats (split_on CHR '','' temperatures_str)))"

text \<open>
  The deformation potential is a file name, one number, or a pair of numbers (a tuple).
\<close>

definition parse_deformation_potential :: "string \<Rightarrow> pyerror + sval" where
  "parse_deformation_potential deformation_pot_str0 =
     (if py_in ''h5'' deformation_pot_str0 then Inr (SStr deformation_pot_str0)
      else
        (let deformation_pot_str = squeeze deformation_pot_str0 in
         except_ValueError (''ERROR: Unrecognised deformation potential format: '' @ deformation_pot_str)
           (bind_err (floats (split_on CHR '','' deformation_pot_str)) (\<lambda>parts.
              if length parts = 1 then Inr (SNum (parts ! 0))
              else if length parts = 2 then Inr (STuple (map SNum parts))
              else Inl (ValueError [])))))"

subsection \<open>\<open>cast_tensor\<close> and \<open>cast_elastic_tensor\<close>\<close>

text \<open>Multiplication and halving of floats, with the IEEE rules for infinities and NaN.\<close>

fun fneg :: "pyfloat \<Rightarrow> pyfloat" where
  "fneg (Finite a) = Finite (- a)"
| "fneg PosInf = NegInf"
| "fneg NegInf = PosInf"
| "fneg NaN = NaN"

fun fmul :: "pyfloat \<Rightarrow> pyfloat \<Rightarrow> pyfloat" where
  "fmul (Finite a) (Finite b) = Finite (a * b)"
| "fmul NaN y = NaN"
| "fmul x NaN = NaN"
| "fmul (Finite a) y = (if a = 0 then NaN else if 0 < a then y else fneg y)"
| "fmul x (Finite b) = (if b = 0 then NaN else if 0 < b then x else fneg x)"
| "fmul x y = (if x = y then PosInf else NegInf)"

fun fhalf :: "pyfloat \<Rightarrow> pyfloat" where
  "fhalf (Finite a) = Finite (a / 2)"
| "fhalf x = x"

text \<open>
  \<open>np.eye(n)\<close> and \<open>np.diag(v)\<close> for a one-dimensional \<open>v\<close>, items in row-major order.
\<close>

definition np_eye :: "nat \<Rightarrow> pyfloat ndarray" where
  "np_eye n = NdArr [n, n]
     (concat (map (\<lambda>i. map (\<lambda>j. if i = j then Finite 1 else Finite 0) [0..<n]) [0..<n]))"

definition np_diag :: "pyfloat ndarray \<Rightarrow> pyfloat ndarray" where
  "np_diag v = (let n = length (items v) in
     NdArr [n, n] (concat (map (\<lambda>i. map (\<lambda>j. if i = j then items v ! i else Finite 0) [0..<n]) [0..<n])))"

definition np_scale :: "pyfloat ndarray \<Rightarrow> pyfloat \<Rightarrow> pyfloat ndarray" where
  "np_scale a x = NdArr (shape a) (map (\<lambda>e. fmul e x) (items a))"

text \<open>
  \<open>amset.constants.numeric_types\<close> is not among the sources. Modelled from the spec: the
  input that is a single number.
\<close>

fun is_numeric :: "sval \<Rightarrow> bool" where
  "is_numeric (SNum x) = True"
| "is_numeric v = False"

fun the_num :: "sval \<Rightarrow> pyfloat" where
  "the_num (SNum x) = x"
| "the_num v = NaN"

definition cast_tensor :: "npenv \<Rightarrow> sval \<Rightarrow> pyerror + pyfloat ndarray" where
  "cast_tensor np tensor =
     (if is_numeric tensor then Inr (np_scale (np_eye 3) (the_num tensor))
      else bind_err (asarray np tensor) (\<lambda>tensor.
        if length (shape tensor) = 1 then Inr (np_diag tensor)
        else if shape tensor \<noteq> [3, 3] then Inl (ValueError ''Unsupported tensor shape.'')
        else Inr tensor))"

text \<open>
  For a number, the 6 by 6 matrix is built in place and the entries (3,3), (4,4), (5,5)
  are halved; \<open>np.array\<close> of that matrix is the matrix.
\<close>

definition voigt_of_number :: "pyfloat \<Rightarrow> pyfloat ndarray" where
  "voigt_of_number x = (let m = np_scale (np_eye 6) x in
     NdArr (shape m) (map (\<lambda>i. if i \<in> {21, 28, 35} then fhalf (items m ! i) else items m ! i) [0..<36]))"

definition cast_elastic_tensor :: "npenv \<Rightarrow> sval \<Rightarrow> pyerror + pyfloat ndarray" where
  "cast_elastic_tensor np elastic_tensor =
     bind_err (if is_numeric elastic_tensor then Inr (voigt_of_number (the_num elastic_tensor))
               else asarray np elastic_tensor) (\<lambda>elastic_tensor.
       let elastic_tensor = (if shape elastic_tensor = [6, 6] then from_voigt np elastic_tensor
                             else elastic_tensor)
       in if shape elastic_tensor \<noteq> [3, 3, 3, 3]
          then Inl (ValueError ''Unsupported elastic tensor shape. Should be (6, 6) or (3, 3, 3, 3).'')
          else Inr elastic_tensor)"

subsection \<open>\<open>validate_settings\<close>\<close>

text \<open>\<open>d[k]\<close> raises \<open>KeyError\<close> on a missing key; \<open>d.update(other)\<close> stores every item.\<close>

definition getitem :: "settings \<Rightarrow> string \<Rightarrow> pyerror + sval" where
  "getitem d k = (case map_of d k of None \<Rightarrow> Inl (KeyError k) | Some v \<Rightarrow> Inr v)"

definition dict_update :: "settings \<Rightarrow> settings \<Rightarrow> settings" where
  "dict_update d other = foldl (\<lambda>d kv. AList.update (fst kv) (snd kv) d) d other"

definition array1 :: "pyfloat list \<Rightarrow> sval" where
  "array1 xs = SArr (NdArr [length xs] xs)"

text \<open>The type checks, one definition for each statement of the source, in its order.\<close>

definition norm_doping :: "npenv \<Rightarrow> settings \<Rightarrow> pyerror + settings" where
  "norm_doping np settings =
     bind_err (getitem settings ''doping'') (\<lambda>v.
       if is_numeric v then Inr (AList.update ''doping'' (SList [v]) settings)
       else (case v of
               SStr s \<Rightarrow> bind_err (parse_doping np s) (\<lambda>xs.
                           Inr (AList.update ''doping'' (array1 xs) settings))
             | _ \<Rightarrow> Inr settings))"

definition norm_temperatures :: "npenv \<Rightarrow> settings \<Rightarrow> pyerror + settings" where
  "norm_temperatures np settings =
     bind_err (getitem settings ''temperatures'') (\<lambda>v.
       if is_numeric v then Inr (AList.update ''temperatures'' (SList [v]) settings)
       else (case v of
               SStr s \<Rightarrow> bind_err (parse_temperatures np s) (\<lambda>xs.
                           Inr (AList.update ''temperatures'' (array1 xs) settings))
             | _ \<Rightarrow> Inr settings))"

definition norm_deformation :: "settings \<Rightarrow> pyerror + settings" where
  "norm_deformation settings =
     bind_err (getitem settings ''deformation_potential'') (\<lambda>v.
       case v of
         SStr s \<Rightarrow> bind_err (parse_deformation_potential s) (\<lambda>p.
                     Inr (AList.update ''deformation_potential'' p settings))
       | SList xs \<Rightarrow> Inr (AList.update ''deformation_potential'' (STuple xs) settings)
       | _ \<Rightarrow> Inr settings)"

definition norm_tensor :: "npenv \<Rightarrow> string \<Rightarrow> settings \<Rightarrow> pyerror + settings" where
  "norm_tensor np key settings =
     bind_err (getitem settings key) (\<lambda>v.
       if v \<noteq> SNone
       then bind_err (cast_tensor np v) (\<lambda>t. Inr (AList.update key (SArr t) settings))
       else Inr settings)"

definition norm_elastic :: "npenv \<Rightarrow> settings \<Rightarrow> pyerror + settings" where
  "norm_elastic np settings =
     bind_err (getitem settings ''elastic_constant'') (\<lambda>v.
       if v \<noteq> SNone
       then bind_err (cast_elastic_tensor np v) (\<lambda>t.
              Inr (AList.update ''elastic_constant'' (SArr t) settings))
       else Inr settings)"

definition norm_arrays :: "npenv \<Rightarrow> settings \<Rightarrow> pyerror + settings" where
  "norm_arrays np settings =
     bind_err (getitem settings ''doping'') (\<lambda>d.
     bind_err (asarray_float np d) (\<lambda>da.
       let settings = AList.update ''doping'' (SArr da) settings in
       bind_err (getitem settings ''temperatures'') (\<lambda>t.
       bind_err (asarray np t) (\<lambda>ta.
         Inr (AList.update ''temperatures'' (SArr ta) settings)))))"

definition normalise :: "npenv \<Rightarrow> settings \<Rightarrow> pyerror + settings" where
  "normalise np settings =
     bind_err (norm_doping np settings) (\<lambda>settings.
     bind_err (norm_temperatures np settings) (\<lambda>settings.
     bind_err (norm_deformation settings) (\<lambda>settings.
     bind_err (norm_tensor np ''static_dielectric'' settings) (\<lambda>settings.
     bind_err (norm_tensor np ''high_frequency_dielectric'' settings) (\<lambda>settings.
     bind_err (norm_elastic np settings) (\<lambda>settings.
     norm_arrays np settings))))))"

text \<open>
  The last loop: \<^verbatim>\<open>for setting in settings: if setting not in defaults: raise\<close>.
\<close>

fun check_keys :: "settings \<Rightarrow> string list \<Rightarrow> pyerror + unit" where
  "check_keys defaults [] = Inr ()"
| "check_keys defaults (setting # rest) =
     (if setting \<notin> fst ` set defaults
      then Inl (ValueError (''Unrecognised setting: '' @ setting))
      else check_keys defaults rest)"

text \<open>
  \<open>amset.constants.defaults\<close> is not among the sources: the default schema is a
  parameter.
\<close>

definition validate_settings :: "npenv \<Rightarrow> settings \<Rightarrow> settings \<Rightarrow> pyerror + settings" where
  "validate_settings np defaults user_settings =
     (let settings = dict_update defaults user_settings in
      bind_err (normalise np settings) (\<lambda>settings.
      bind_err (check_keys defaults (map fst settings)) (\<lambda>_.
      Inr settings)))"

subsection \<open>Stand-ins for numpy, for running the validator on examples\<close>

text \<open>
  \<open>np.linspace\<close> and \<open>np.geomspace\<close> as documented, in exact arithmetic on finite
  endpoints: a negative count is a \<open>ValueError\<close>, one point is the start, and otherwise
  both ends are included; a geometric sequence cannot include zero. Other endpoints do
  not occur in the examples and give NaN throughout.
\<close>

definition np_linspace :: "pyfloat \<Rightarrow> pyfloat \<Rightarrow> int \<Rightarrow> pyerror + pyfloat list" where
  "np_linspace start stop num =
     (if num < 0 then Inl (ValueError ''Number of samples must be non-negative.'')
      else (case (start, stop) of
              (Finite a, Finite b) \<Rightarrow>
                Inr (map (\<lambda>i. Finite (if num = 1 then a
                                        else a + real i * ((b - a) / real_of_int (num - 1))))
                       [0..<nat num])
            | _ \<Rightarrow> Inr (replicate (nat num) NaN)))"

definition np_geomspace :: "pyfloat \<Rightarrow> pyfloat \<Rightarrow> int \<Rightarrow> pyerror + pyfloat list" where
  "np_geomspace start stop num =
     (if start = Finite 0 \<or> stop = Finite 0 then Inl (ValueError ''Geometric sequence cannot include zero'')
      else if num < 0 then Inl (ValueError ''Number of samples must be non-negative.'')
      else (case (start, stop) of
              (Finite a, Finite b) \<Rightarrow>
                if 0 < a * b
                then Inr (map (\<lambda>i. Finite (if num = 1 then a
                                             else a * (b / a) powr (real i / real_of_int (num - 1))))
                            [0..<nat num])
                else Inr (replicate (nat num) NaN)
            | _ \<Rightarrow> Inr (replicate (nat num) NaN)))"

text \<open>
  \<open>np.asarray\<close> on an array, a number, a list of numbers, or a list of equally long lists
  of numbers; anything else is refused here.
\<close>

definition nums_of :: "sval list \<Rightarrow> pyfloat list option" where
  "nums_of vs = (if list_all is_numeric vs then Some (map the_num vs) else None)"

fun np_asarray :: "sval \<Rightarrow> pyerror + pyfloat ndarray" where
  "np_asarray (SArr a) = Inr a"
| "np_asarray (SNum x) = Inr (NdArr [] [x])"
| "np_asarray (SList vs) =
     (case nums_of vs of
        Some xs \<Rightarrow> Inr (NdArr [length xs] xs)
      | None \<Rightarrow>
          (case vs of
             SList r # _ \<Rightarrow>
               if list_all (\<lambda>v. case v of SList q \<Rightarrow> length q = length r \<and> list_all is_numeric q | _ \<Rightarrow> False) vs
               then Inr (NdArr [length vs, length r]
                          (concat (map (\<lambda>v. case v of SList q \<Rightarrow> map the_num q | _ \<Rightarrow> []) vs)))
               else Inl (ValueError ''inhomogeneous shape'')
           | _ \<Rightarrow> Inl (ValueError ''inhomogeneous shape'')))"
| "np_asarray v = Inl (ValueError ''could not convert'')"

text \<open>
  \<open>Tensor.from_voigt\<close> on a 6 by 6 matrix: entry \<open>(i, j, k, l)\<close> of the result is entry
  \<open>(voigt i j, voigt k l)\<close> of the matrix.
\<close>

definition voigt_index :: "nat \<Rightarrow> nat \<Rightarrow> nat" where
  "voigt_index i j = (if i = j then i else 6 - i - j)"

definition std_from_voigt :: "pyfloat ndarray \<Rightarrow> pyfloat ndarray" where
  "std_from_voigt m = NdArr [3, 3, 3, 3]
     (concat (map (\<lambda>i. concat (map (\<lambda>j. concat (map (\<lambda>k. map (\<lambda>l.
        items m ! (6 * voigt_index i j + voigt_index k l)) [0..<3]) [0..<3])) [0..<3])) [0..<3]))"

definition exact_np :: npenv where
  "exact_np = \<lparr>geomspace = np_geomspace, linspace = np_linspace,
     asarray = np_asarray, asarray_float = np_asarray, from_voigt = std_from_voigt\<rparr>"

text \<open>A small default schema, for running the validator on examples.\<close>

definition example_defaults :: settings where
  "example_defaults =
     [(''doping'', SList [SNum (Finite 1)]),
      (''temperatures'', SList [SNum (Finite 300)]),
      (''deformation_potential'', SNone),
      (''static_dielectric'', SNone),
      (''high_frequency_dielectric'', SNone),
      (''elastic_constant'', SNone),
      (''interpolation_factor'', SNum (Finite 10))]"

section \<open>Properties of \<open>cast_dict_ndarray\<close>\<close>

lemma cast_items_keys:
  "fst ` set (cast_items d new_d) = fst ` set new_d \<union> cast_key ` fst ` set d"
proof (induction d arbitrary: new_d)
  case Nil
  show ?case by simp
next
  case (Cons kv d)
  obtain k v where kv: "kv = (k, v)" by (cases kv)
  show ?case
    unfolding kv by (simp add: Cons.IH AList.dom_update)
qed

text \<open>
  C10: whenever a dictionary has the string key \<open>"up"\<close> or \<open>"down"\<close>, the result of
  \<open>cast_dict_ndarray\<close> has the key \<open>Spin.up\<close> and neither string key any more; both
  strings are cast to \<open>Spin.up\<close>, and a mapping keyed \<open>"down"\<close> alone comes back keyed
  \<open>Spin.up\<close>.
\<close>

theorem cast_dict_ndarray_both_keys_up:
  assumes "KStr ''up'' \<in> fst ` set d \<or> KStr ''down'' \<in> fst ` set d"
  shows "(\<exists>d'. cast_dict_ndarray (Some d) = Some d'
           \<and> KSpin Up \<in> fst ` set d'
           \<and> KStr ''up'' \<notin> fst ` set d' \<and> KStr ''down'' \<notin> fst ` set d'
           \<and> (KSpin Down \<in> fst ` set d' \<longrightarrow> KSpin Down \<in> fst ` set d))
       \<and> cast_key (KStr ''up'') = KSpin Up \<and> cast_key (KStr ''down'') = KSpin Up
       \<and> cast_dict_ndarray (Some [(KStr ''down'', v)]) = Some [(KSpin Up, cast_val v)]"
proof -
  have up: "KSpin Up \<in> cast_key ` fst ` set d"
  proof -
    from assms obtain k where k: "k \<in> fst ` set d" "k = KStr ''up'' \<or> k = KStr ''down''"
      by blast
    then have "cast_key k = KSpin Up" by auto
    with k(1) show ?thesis by (metis imageI)
  qed
  have no: "KStr s \<in> cast_key ` fst ` set d \<Longrightarrow> s \<noteq> ''up'' \<and> s \<noteq> ''down''" for s
  proof -
    assume "KStr s \<in> cast_key ` fst ` set d"
    then obtain k where "cast_key k = KStr s" by (metis imageE)
    then show ?thesis by (cases k) (auto split: if_splits)
  qed
  have dn: "KSpin Down \<in> cast_key ` fst ` set d \<Longrightarrow> KSpin Down \<in> fst ` set d"
  proof -
    assume "KSpin Down \<in> cast_key ` fst ` set d"
    then obtain k where k: "k \<in> fst ` set d" "cast_key k = KSpin Down"
      by (metis imageE)
    then show ?thesis by (cases k) (auto split: if_splits)
  qed
  have "\<exists>d'. cast_dict_ndarray (Some d) = Some d'
           \<and> KSpin Up \<in> fst ` set d'
           \<and> KStr ''up'' \<notin> fst ` set d' \<and> KStr ''down'' \<notin> fst ` set d'
           \<and> (KSpin Down \<in> fst ` set d' \<longrightarrow> KSpin Down \<in> fst ` set d)"
    using up no dn by (auto simp: cast_dict_ndarray_def cast_items_keys)
  moreover have "cast_key (KStr ''up'') = KSpin Up \<and> cast_key (KStr ''down'') = KSpin Up"
    by simp
  moreover have "cast_dict_ndarray (Some [(KStr ''down'', v)]) = Some [(KSpin Up, cast_val v)]"
    by (simp add: cast_dict_ndarray_def)
  ultimately show ?thesis by blast
qed

theorem cast_dict_ndarray_both_keys_up_witness:
  "(KStr ''up'' \<in> fst ` set [(KStr ''up'', PyList (1::nat)), (KStr ''down'', PyList 2)]
      \<or> KStr ''down'' \<in> fst ` set [(KStr ''up'', PyList (1::nat)), (KStr ''down'', PyList 2)])
   \<and> cast_dict_ndarray (Some [(KStr ''up'', PyList (1::nat)), (KStr ''down'', PyList 2)])
       = Some [(KSpin Up, NdArray 2)]
   \<and> cast_dict_ndarray (Some [(KStr ''down'', PyList (7::nat))]) = Some [(KSpin Up, NdArray 7)]"
  using cast_dict_ndarray_both_keys_up
    [of "[(KStr ''up'', PyList (1::nat)), (KStr ''down'', PyList 2)]" "PyList (7::nat)"]
  by (simp add: cast_dict_ndarray_def)

section \<open>Properties of the mesh codec\<close>

subsection \<open>Two spins of one key\<close>

text \<open>
  C2: a key \<open>K\<close> with both spins should be stored as \<open>K_up\<close> and \<open>K_down\<close>. Run on
  \<open>{"energies": {up: A, down: B}}\<close>, \<open>write_mesh_data\<close> names the second entry after the
  first: \<open>energies_up\<close> and \<open>energies_up_down\<close>.
\<close>

theorem write_mesh_data_second_spin_name:
  "write_mesh_data text_codec
     [(''energies'', SpinDict [(Up, Ndarray (NdArr [2] [1, 2])), (Down, Ndarray (NdArr [2] [3, 4]))])]
   = Inr [(''energies_up'', HArray (NdArr [2] [1, 2]), True),
          (''energies_up_down'', HArray (NdArr [2] [3, 4]), True)]"
  by (simp add: write_mesh_data_def create_dataset_def)

subsection \<open>The sentinel under \<open>vb_idx\<close>\<close>

text \<open>
  C7: \<open>{"vb_idx": None}\<close> is stored as the boolean false, and should read back as
  \<open>None\<close>. The value that comes back is the \<open>numpy.bool_\<close> false: it is not the object
  \<open>False\<close>, so the identity test of \<open>read_data\<close> keeps it.
\<close>

theorem vb_idx_none_reads_back_false:
  "write_mesh_data text_codec [(''vb_idx'', Plain NoneVal)] = Inr [(''vb_idx'', HBool False, False)]
   \<and> load_mesh_data text_codec [(''vb_idx'', HBool False, False)]
       = Inr [(''vb_idx'', Plain (Scalar (NpBool False)))]
   \<and> Plain (Scalar (NpBool False)) \<noteq> (Plain NoneVal :: (int, string) mesh_value)"
  by (simp add: write_mesh_data_def create_dataset_def load_mesh_data_def load_entry_def
      read_data_def)

subsection \<open>What writing adds and what reading keeps\<close>

lemma create_dataset_Inr:
  "create_dataset f name v gz = Inr f' \<longleftrightarrow> name \<notin> fst ` set f \<and> f' = f @ [(name, v, gz)]"
  by (auto simp: create_dataset_def)

lemma add_data_grows:
  assumes "add_data ext f name d = Inr f'"
  shows "\<exists>n v gz. f' = f @ [(n, v, gz)] \<and> n \<notin> fst ` set f"
proof (cases d)
  case (PySeq q)
  with assms show ?thesis
    by (cases q) (auto simp: create_dataset_Inr split: if_splits)
next
  case (Scalar c)
  with assms show ?thesis
    by (cases c) (auto simp: create_dataset_Inr)
qed (use assms in \<open>auto simp: create_dataset_Inr split: if_splits\<close>)

lemma add_data_subset: "add_data ext f name d = Inr f' \<Longrightarrow> set f \<subseteq> set f'"
  by (drule add_data_grows) auto

lemma write_spins_subset: "write_spins ext f key d = Inr f' \<Longrightarrow> set f \<subseteq> set f'"
proof (induction d arbitrary: f key)
  case Nil
  then show ?case by simp
next
  case (Cons sv d)
  obtain s v where sv: "sv = (s, v)" by (cases sv)
  from Cons.prems obtain f1 where
    f1: "add_data ext f (key @ ''_'' @ spin_name s) v = Inr f1"
    and rest: "write_spins ext f1 (key @ ''_'' @ spin_name s) d = Inr f'"
    unfolding sv by (auto simp: Let_def split: sum.splits)
  from add_data_subset [OF f1] Cons.IH [OF rest] show ?case by blast
qed

lemma write_items_subset: "write_items ext f mesh = Inr f' \<Longrightarrow> set f \<subseteq> set f'"
proof (induction mesh arbitrary: f)
  case Nil
  then show ?case by simp
next
  case (Cons kv mesh)
  obtain k v where kv: "kv = (k, v)" by (cases kv)
  show ?case
  proof (cases v)
    case (Plain d)
    from Cons.prems obtain f1 where f1: "add_data ext f k d = Inr f1"
      and rest: "write_items ext f1 mesh = Inr f'"
      unfolding kv Plain by (auto split: sum.splits)
    from add_data_subset [OF f1] Cons.IH [OF rest] show ?thesis by blast
  next
    case (SpinDict d)
    from Cons.prems obtain f1 where f1: "write_spins ext f k d = Inr f1"
      and rest: "write_items ext f1 mesh = Inr f'"
      unfolding kv SpinDict by (auto split: sum.splits)
    from write_spins_subset [OF f1] Cons.IH [OF rest] show ?thesis by blast
  qed
qed

lemma write_items_stores_plain:
  assumes "(K, Plain d) \<in> set mesh" "write_items ext f mesh = Inr f'"
  shows "\<exists>f0 f1. add_data ext f0 K d = Inr f1 \<and> set f1 \<subseteq> set f'"
  using assms
proof (induction mesh arbitrary: f)
  case Nil
  then show ?case by simp
next
  case (Cons kv mesh)
  obtain k v where kv: "kv = (k, v)" by (cases kv)
  from Cons.prems(2) obtain f1 where
    f1: "(case v of SpinDict sd \<Rightarrow> write_spins ext f k sd | Plain data \<Rightarrow> add_data ext f k data) = Inr f1"
    and rest: "write_items ext f1 mesh = Inr f'"
    unfolding kv by (auto split: sum.splits)
  show ?case
  proof (cases "kv = (K, Plain d)")
    case True
    with kv f1 have "add_data ext f K d = Inr f1" by auto
    with write_items_subset [OF rest] show ?thesis by blast
  next
    case False
    with Cons.prems(1) have "(K, Plain d) \<in> set mesh" by simp
    from Cons.IH [OF this rest] show ?thesis .
  qed
qed

lemma load_entry_keeps:
  assumes "map_of acc K = Some (Plain r)" "fst e \<noteq> K" "load_entry ext acc e = Inr acc'"
  shows "map_of acc' K = Some (Plain r)"
proof (cases "py_in ''_up'' (fst e) \<or> py_in ''_down'' (fst e)")
  case False
  with assms show ?thesis
    by (auto simp: load_entry_def Let_def update_conv' split: sum.splits)
next
  case True
  then obtain spin where sp: "map_of str_to_spin (last (split_on CHR ''_'' (fst e))) = Some spin"
    using assms(3) by (auto simp: load_entry_def Let_def split: option.splits)
  define k where "k = py_replace (''_'' @ spin_name spin) [] (fst e)"
  show ?thesis
  proof (cases "k = K")
    case same: True
    have "K \<in> fst ` set acc" using assms(1) by (metis domI dom_map_of_conv_image_fst)
    with True sp same assms(1,3) show ?thesis
      by (auto simp: load_entry_def Let_def k_def split: sum.splits pyobj.splits)
  next
    case diff: False
    with True sp assms(1,3) show ?thesis
      by (auto simp: load_entry_def Let_def k_def update_conv' split: sum.splits option.splits mesh_value.splits pyobj.splits if_splits)
  qed
qed

lemma load_items_keeps:
  assumes "map_of acc K = Some (Plain r)" "K \<notin> fst ` set es" "load_items ext acc es = Inr m"
  shows "map_of m K = Some (Plain r)"
  using assms
proof (induction es arbitrary: acc)
  case Nil
  then show ?case by simp
next
  case (Cons e es)
  from Cons.prems(3) obtain acc' where
    a: "load_entry ext acc e = Inr acc'" and rest: "load_items ext acc' es = Inr m"
    by (auto split: sum.splits)
  from Cons.prems(2) have ne: "fst e \<noteq> K" and notin: "K \<notin> fst ` set es" by auto
  from load_entry_keeps [OF Cons.prems(1) ne a] have "map_of acc' K = Some (Plain r)" .
  from Cons.IH [OF this notin rest] show ?case .
qed

lemma load_entry_plain:
  assumes "\<not> py_in ''_up'' K" "\<not> py_in ''_down'' K" "load_entry ext acc (K, v, gz) = Inr acc'"
  shows "\<exists>r. read_data ext K v = Inr r \<and> map_of acc' K = Some (Plain r)"
  using assms by (auto simp: load_entry_def Let_def update_conv' split: sum.splits)

lemma load_items_plain:
  assumes "\<not> py_in ''_up'' K" "\<not> py_in ''_down'' K"
    and "(K, v, gz) \<in> set es" "distinct (map fst es)" "load_items ext acc es = Inr m"
  shows "\<exists>r. read_data ext K v = Inr r \<and> map_of m K = Some (Plain r)"
  using assms(3-)
proof (induction es arbitrary: acc)
  case Nil
  then show ?case by simp
next
  case (Cons e es)
  from Cons.prems(3) obtain acc' where
    a: "load_entry ext acc e = Inr acc'" and rest: "load_items ext acc' es = Inr m"
    by (auto split: sum.splits)
  show ?case
  proof (cases "e = (K, v, gz)")
    case True
    with a load_entry_plain [OF assms(1,2)] obtain r where
      r: "read_data ext K v = Inr r" "map_of acc' K = Some (Plain r)" by blast
    from Cons.prems(2) True have "K \<notin> fst ` set es" by auto
    from load_items_keeps [OF r(2) this rest] r(1) show ?thesis by blast
  next
    case False
    with Cons.prems(1) have "(K, v, gz) \<in> set es" by simp
    moreover from Cons.prems(2) have "distinct (map fst es)" by simp
    ultimately show ?thesis using Cons.IH rest by blast
  qed
qed

subsection \<open>\<open>None\<close> under another key\<close>

text \<open>
  C9 as stated fails for a key that contains \<open>_up\<close>: \<open>{"x_up": None}\<close> is stored as the
  sentinel under \<open>x_up\<close>, and read back as the spin entry \<open>{"x": {up: false}}\<close>; nothing
  comes back under \<open>x_up\<close>.
\<close>

theorem none_under_key_with_spin_suffix:
  "write_mesh_data text_codec [(''x_up'', Plain NoneVal)] = Inr [(''x_up'', HBool False, False)]
   \<and> load_mesh_data text_codec [(''x_up'', HBool False, False)]
       = Inr [(''x'', SpinDict [(Up, Scalar (NpBool False))])]
   \<and> map_of [(''x'', SpinDict [(Up, Scalar (NpBool False))] :: (int, string) mesh_value)] ''x_up'' = None"
  by (simp add: write_mesh_data_def create_dataset_def load_mesh_data_def load_entry_def
      read_data_def str_to_spin_def)

text \<open>
  C9, amended: for every key \<open>K\<close> other than \<open>vb_idx\<close>, \<open>structure\<close> and
  \<open>scattering_labels\<close> that contains neither \<open>_up\<close> nor \<open>_down\<close>, the mapping
  \<open>{K: None}\<close> is stored as the boolean false under \<open>K\<close> and read back as the literal
  false value under \<open>K\<close>; and in any mesh mapping with the entry \<open>K: None\<close>, whenever
  writing succeeds the file has the sentinel under \<open>K\<close>, and whenever reading the file's
  entries in any order succeeds the result has the literal false value under \<open>K\<close>.
\<close>

theorem none_under_plain_key_reads_back_false:
  assumes "K \<notin> {''vb_idx'', ''structure'', ''scattering_labels''}"
    and "\<not> py_in ''_up'' K" and "\<not> py_in ''_down'' K"
  shows "write_mesh_data ext [(K, Plain NoneVal)] = Inr [(K, HBool False, False)]
     \<and> load_mesh_data ext [(K, HBool False, False)] = Inr [(K, Plain (Scalar (NpBool False)))]
     \<and> (\<forall>mesh f es m.
           (K, Plain NoneVal) \<in> set mesh \<and> write_mesh_data ext mesh = Inr f
           \<and> set es = set f \<and> distinct (map fst es) \<and> load_mesh_data ext es = Inr m
           \<longrightarrow> (K, HBool False, False) \<in> set f
               \<and> map_of m K = Some (Plain (Scalar (NpBool False))))"
proof -
  have rd: "read_data ext K (HBool False) = Inr (Scalar (NpBool False))"
    using assms(1) by (simp add: read_data_def)
  have one: "write_mesh_data ext [(K, Plain NoneVal)] = Inr [(K, HBool False, False)]"
    by (simp add: write_mesh_data_def create_dataset_def)
  have two: "load_mesh_data ext [(K, HBool False, False)] = Inr [(K, Plain (Scalar (NpBool False)))]"
    using assms(2,3) by (simp add: load_mesh_data_def load_entry_def rd)
  have three: "(K, HBool False, False) \<in> set f \<and> map_of m K = Some (Plain (Scalar (NpBool False)))"
    if mem: "(K, Plain NoneVal) \<in> set mesh" and w: "write_mesh_data ext mesh = Inr f"
      and es: "set es = set f" "distinct (map fst es)" and l: "load_mesh_data ext es = Inr m"
    for mesh f es m
  proof -
    from write_items_stores_plain [OF mem w [unfolded write_mesh_data_def]]
    obtain f0 f1 where "add_data ext f0 K NoneVal = Inr f1" "set f1 \<subseteq> set f" by blast
    then have inf: "(K, HBool False, False) \<in> set f"
      by (auto simp: create_dataset_Inr)
    with es(1) have "(K, HBool False, False) \<in> set es" by simp
    from load_items_plain [OF assms(2,3) this es(2) l [unfolded load_mesh_data_def]] rd inf
    show ?thesis by auto
  qed
  from one two three show ?thesis by blast
qed

theorem none_under_plain_key_reads_back_false_witness:
  "''ir_kpoints'' \<notin> {''vb_idx'', ''structure'', ''scattering_labels''}
   \<and> \<not> py_in ''_up'' ''ir_kpoints'' \<and> \<not> py_in ''_down'' ''ir_kpoints''
   \<and> write_mesh_data text_codec
        [(''ir_kpoints'', Plain NoneVal), (''energies'', SpinDict [(Up, Scalar (Num 5))])]
       = Inr [(''ir_kpoints'', HBool False, False), (''energies_up'', HNum 5, False)]
   \<and> load_mesh_data text_codec [(''energies_up'', HNum 5, False), (''ir_kpoints'', HBool False, False)]
       = Inr [(''energies'', SpinDict [(Up, Scalar (Num 5))]),
              (''ir_kpoints'', Plain (Scalar (NpBool False)))]
   \<and> load_mesh_data text_codec [(''ir_kpoints'', HBool False, False)]
       = Inr [(''ir_kpoints'', Plain (Scalar (NpBool False)))]"
  using none_under_plain_key_reads_back_false [of "''ir_kpoints''" text_codec]
  by (simp add: write_mesh_data_def create_dataset_def load_mesh_data_def load_entry_def
      read_data_def str_to_spin_def)

section \<open>Properties of the settings validator\<close>

subsection \<open>\<open>cast_tensor\<close>\<close>

text \<open>
  A number gives the number times the identity, and whatever \<open>np.asarray\<close> makes
  one-dimensional gives its diagonal matrix: the length is not looked at.
\<close>

lemma cast_tensor_number:
  "cast_tensor np (SNum x)
   = Inr (NdArr [3, 3] [fmul (Finite 1) x, fmul (Finite 0) x, fmul (Finite 0) x,
                        fmul (Finite 0) x, fmul (Finite 1) x, fmul (Finite 0) x,
                        fmul (Finite 0) x, fmul (Finite 0) x, fmul (Finite 1) x])"
  by (simp add: cast_tensor_def np_scale_def np_eye_def upt_rec)

lemma cast_tensor_one_dimensional:
  assumes "\<not> is_numeric t" "asarray np t = Inr a" "length (shape a) = 1"
  shows "cast_tensor np t = Inr (np_diag a)"
  using assms by (simp add: cast_tensor_def bind_err_def)

lemma cast_tensor_two_dimensional:
  assumes "\<not> is_numeric t" "asarray np t = Inr a" "length (shape a) \<noteq> 1"
  shows "cast_tensor np t = (if shape a = [3, 3] then Inr a else Inl (ValueError ''Unsupported tensor shape.''))"
  using assms by (simp add: cast_tensor_def bind_err_def)

text \<open>
  C4: every shape other than a number, a sequence of length 3 and a 3 by 3 matrix should
  be refused. \<open>cast_tensor([1.0, 2.0])\<close> is not: it returns the 2 by 2 diagonal matrix.
\<close>

theorem cast_tensor_length_two_not_refused:
  "cast_tensor exact_np (SList [SNum (Finite 1), SNum (Finite 2)])
   = Inr (NdArr [2, 2] [Finite 1, Finite 0, Finite 0, Finite 2])"
  by (simp add: cast_tensor_def exact_np_def bind_err_def nums_of_def np_diag_def upt_rec)

subsection \<open>What \<open>float\<close> refuses\<close>







lemma dropWhile_keeps: "\<not> P c \<Longrightarrow> c \<in> set (dropWhile P xs) \<longleftrightarrow> c \<in> set xs"
  by (induction xs) auto

lemma py_strip_keeps: "\<not> py_isspace c \<Longrightarrow> c \<in> set (py_strip s) \<longleftrightarrow> c \<in> set s"
  by (simp add: py_strip_def dropWhile_keeps)


subsection \<open>The shape of the three parsers\<close>

lemma py_replace_single: "py_replace [c] [] t = filter (\<lambda>x. x \<noteq> c) t"
  by (induction t) auto

lemma squeeze_keeps: "\<not> py_isspace c \<Longrightarrow> c \<in> set (squeeze s) \<longleftrightarrow> c \<in> set s"
proof -
  assume n: "\<not> py_isspace c"
  have "py_isspace CHR '' ''" by (simp add: py_isspace_def)
  with n have "c \<noteq> CHR '' ''" by auto
  with n show ?thesis by (auto simp: squeeze_def py_replace_single py_strip_keeps)
qed

lemma py_in_single: "py_in [c] t \<longleftrightarrow> c \<in> set t"
  by (induction t) auto

lemma colon_in_squeeze: "py_in '':'' (squeeze s) \<longleftrightarrow> CHR '':'' \<in> set s"
  by (simp add: py_in_single squeeze_keeps py_isspace_def)

lemma floats_error: "floats ts = Inl e \<Longrightarrow> e = ValueError ''could not convert string to float''"
  by (induction ts arbitrary: e) (auto split: option.splits sum.splits)

lemma floats_fail_iff: "(\<exists>e. floats ts = Inl e) \<longleftrightarrow> (\<exists>t \<in> set ts. py_float t = None)"
  by (induction ts) (auto split: option.splits sum.splits)

lemma floats_Inr_iff: "floats ts = Inr xs \<longleftrightarrow> map py_float ts = map Some xs"
proof (induction ts arbitrary: xs)
  case Nil
  then show ?case by auto
next
  case (Cons t ts)
  show ?case
  proof (cases "py_float t")
    case None
    then show ?thesis by (cases xs) auto
  next
    case (Some x)
    show ?thesis
    proof (cases "floats ts")
      case (Inl e)
      with Cons.IH have "\<And>ys. map py_float ts \<noteq> map Some ys" by simp
      with Some Inl show ?thesis by (cases xs) auto
    next
      case (Inr ys)
      from Cons.IH [of ys] Inr have m: "map py_float ts = map Some ys" by simp
      have "(map Some ys = map Some zs) = (ys = zs)" for zs :: "pyfloat list"
        by (simp add: inj_map_eq_map)
      with m Some Inr show ?thesis by (cases xs) auto
    qed
  qed
qed

lemma floats_length: "floats ts = Inr xs \<Longrightarrow> length xs = length ts"
  by (metis floats_Inr_iff length_map)

lemma except_ValueError_message:
  "except_ValueError msg r = Inl (ValueError m) \<Longrightarrow> m = msg"
  by (auto simp: except_ValueError_def split: sum.splits pyerror.splits)

lemma except_ValueError_Inr [simp]: "except_ValueError msg (Inr x) = Inr x"
  by (simp add: except_ValueError_def)

lemma except_ValueError_raise [simp]:
  "except_ValueError msg (Inl (ValueError m)) = Inl (ValueError msg)"
  by (simp add: except_ValueError_def)




lemma parse_doping_unfold:
  "parse_doping np s =
     except_ValueError (''ERROR: Unrecognised doping format: '' @ squeeze s)
       (if CHR '':'' \<in> set s then
          bind_err (floats (split_on CHR '':'' (squeeze s))) (\<lambda>parts.
            if length parts \<noteq> 3 then Inl (ValueError [])
            else bind_err (py_int (parts ! 2)) (\<lambda>n. geomspace np (parts ! 0) (parts ! 1) n))
        else floats (split_on CHR '','' (squeeze s)))"
  by (simp add: parse_doping_def Let_def colon_in_squeeze)

lemma parse_temperatures_unfold:
  "parse_temperatures np s =
     except_ValueError (''ERROR: Unrecognised temperature format: '' @ squeeze s)
       (if CHR '':'' \<in> set s then
          bind_err (floats (split_on CHR '':'' (squeeze s))) (\<lambda>parts.
            if length parts \<noteq> 3 then Inl (ValueError [])
            else bind_err (py_int (parts ! 2)) (\<lambda>n. linspace np (parts ! 0) (parts ! 1) n))
        else floats (split_on CHR '','' (squeeze s)))"
  by (simp add: parse_temperatures_def Let_def colon_in_squeeze)


lemma range_bad_parts:
  assumes "length (split_on CHR '':'' t) \<noteq> 3 \<or> (\<exists>tok \<in> set (split_on CHR '':'' t). py_float tok = None)"
  shows "\<exists>m. bind_err (floats (split_on CHR '':'' t)) (\<lambda>parts.
            if length parts \<noteq> 3 then Inl (ValueError [])
            else bind_err (py_int (parts ! 2)) (\<lambda>k. sp (parts ! 0) (parts ! 1) k))
         = Inl (ValueError m)"
proof (cases "floats (split_on CHR '':'' t)")
  case (Inl e)
  with floats_error show ?thesis by (auto simp: bind_err_def)
next
  case (Inr parts)
  then have "\<not> (\<exists>tok \<in> set (split_on CHR '':'' t). py_float tok = None)"
    using floats_fail_iff by (metis sum.distinct(1))
  with assms have "length (split_on CHR '':'' t) \<noteq> 3" by blast
  with floats_length [OF Inr] have "length parts \<noteq> 3" by simp
  with Inr show ?thesis by (simp add: bind_err_def)
qed

lemmas float_eval = py_float_def py_strip_def py_isspace_def py_lower_def parse_number_def
  digitpart_def is_digit_def parse_exponent_def nat_of_digits_def digit_val_def scale10_def

subsection \<open>\<open>parse_doping\<close>\<close>



subsection \<open>\<open>parse_temperatures\<close>\<close>




subsection \<open>The message of a format error\<close>

lemma parse_deformation_potential_unfold:
  "\<not> py_in ''h5'' s \<Longrightarrow> parse_deformation_potential s =
     except_ValueError (''ERROR: Unrecognised deformation potential format: '' @ squeeze s)
       (bind_err (floats (split_on CHR '','' (squeeze s))) (\<lambda>parts.
          if length parts = 1 then Inr (SNum (parts ! 0))
          else if length parts = 2 then Inr (STuple (map SNum parts))
          else Inl (ValueError [])))"
  by (simp add: parse_deformation_potential_def Let_def)

lemma comma_bad_tokens:
  assumes "\<exists>tok \<in> set ts. py_float tok = None"
  shows "\<exists>m. floats ts = Inl (ValueError m)"
  using assms floats_fail_iff floats_error by blast

text \<open>
  C8 as stated fails when the caller's string has a space inside: the message is built
  from the string after \<open>strip\<close> and \<open>replace(" ", "")\<close>. For \<open>"1:2: 3:4"\<close> the message
  ends in \<open>1:2:3:4\<close> and does not contain the original string.
\<close>

theorem format_error_drops_spaces:
  "parse_doping exact_np ''1:2: 3:4'' = Inl (ValueError ''ERROR: Unrecognised doping format: 1:2:3:4'')
   \<and> \<not> py_in ''1:2: 3:4'' ''ERROR: Unrecognised doping format: 1:2:3:4''"
  by (simp add: parse_doping_def squeeze_def except_ValueError_def bind_err_def exact_np_def float_eval)

text \<open>
  C8, amended: whenever one of the three parsers raises a \<open>ValueError\<close>, its message is
  the parser's fixed prefix followed by the input stripped of surrounding whitespace and
  with all spaces removed; and that error is raised on a wrong number of tokens and on a
  token that is not a number.
\<close>

theorem format_error_message:
  "(\<forall>m. parse_doping np s = Inl (ValueError m)
        \<longrightarrow> m = ''ERROR: Unrecognised doping format: '' @ squeeze s)
   \<and> (\<forall>m. parse_temperatures np s = Inl (ValueError m)
        \<longrightarrow> m = ''ERROR: Unrecognised temperature format: '' @ squeeze s)
   \<and> (\<forall>m. parse_deformation_potential s = Inl (ValueError m)
        \<longrightarrow> m = ''ERROR: Unrecognised deformation potential format: '' @ squeeze s)
   \<and> ((if CHR '':'' \<in> set s
        then length (split_on CHR '':'' (squeeze s)) \<noteq> 3
             \<or> (\<exists>tok \<in> set (split_on CHR '':'' (squeeze s)). py_float tok = None)
        else (\<exists>tok \<in> set (split_on CHR '','' (squeeze s)). py_float tok = None))
       \<longrightarrow> parse_doping np s = Inl (ValueError (''ERROR: Unrecognised doping format: '' @ squeeze s))
         \<and> parse_temperatures np s
             = Inl (ValueError (''ERROR: Unrecognised temperature format: '' @ squeeze s)))
   \<and> (\<not> py_in ''h5'' s
        \<and> (length (split_on CHR '','' (squeeze s)) \<notin> {1, 2}
             \<or> (\<exists>tok \<in> set (split_on CHR '','' (squeeze s)). py_float tok = None))
       \<longrightarrow> parse_deformation_potential s
           = Inl (ValueError (''ERROR: Unrecognised deformation potential format: '' @ squeeze s)))"
proof (intro conjI allI impI)
  fix m assume "parse_doping np s = Inl (ValueError m)"
  then show "m = ''ERROR: Unrecognised doping format: '' @ squeeze s"
    unfolding parse_doping_unfold by (rule except_ValueError_message)
next
  fix m assume "parse_temperatures np s = Inl (ValueError m)"
  then show "m = ''ERROR: Unrecognised temperature format: '' @ squeeze s"
    unfolding parse_temperatures_unfold by (rule except_ValueError_message)
next
  fix m assume a: "parse_deformation_potential s = Inl (ValueError m)"
  have "\<not> py_in ''h5'' s"
    using a by (auto simp: parse_deformation_potential_def split: if_splits)
  from a [unfolded parse_deformation_potential_unfold [OF this]]
  show "m = ''ERROR: Unrecognised deformation potential format: '' @ squeeze s"
    by (rule except_ValueError_message)
next
  assume bad: "if CHR '':'' \<in> set s
        then length (split_on CHR '':'' (squeeze s)) \<noteq> 3
             \<or> (\<exists>tok \<in> set (split_on CHR '':'' (squeeze s)). py_float tok = None)
        else (\<exists>tok \<in> set (split_on CHR '','' (squeeze s)). py_float tok = None)"
  show "parse_doping np s = Inl (ValueError (''ERROR: Unrecognised doping format: '' @ squeeze s))"
  proof (cases "CHR '':'' \<in> set s")
    case True
    with bad range_bad_parts [of "squeeze s" "geomspace np"] show ?thesis
      by (auto simp: parse_doping_unfold)
  next
    case False
    with bad comma_bad_tokens [of "split_on CHR '','' (squeeze s)"] show ?thesis
      by (auto simp: parse_doping_unfold)
  qed
  show "parse_temperatures np s = Inl (ValueError (''ERROR: Unrecognised temperature format: '' @ squeeze s))"
  proof (cases "CHR '':'' \<in> set s")
    case True
    with bad range_bad_parts [of "squeeze s" "linspace np"] show ?thesis
      by (auto simp: parse_temperatures_unfold)
  next
    case False
    with bad comma_bad_tokens [of "split_on CHR '','' (squeeze s)"] show ?thesis
      by (auto simp: parse_temperatures_unfold)
  qed
next
  assume a: "\<not> py_in ''h5'' s
        \<and> (length (split_on CHR '','' (squeeze s)) \<notin> {1, 2}
             \<or> (\<exists>tok \<in> set (split_on CHR '','' (squeeze s)). py_float tok = None))"
  show "parse_deformation_potential s
           = Inl (ValueError (''ERROR: Unrecognised deformation potential format: '' @ squeeze s))"
  proof (cases "floats (split_on CHR '','' (squeeze s))")
    case (Inl e)
    with floats_error [OF Inl] a show ?thesis
      by (simp add: parse_deformation_potential_unfold bind_err_def)
  next
    case (Inr parts)
    then have "\<not> (\<exists>tok \<in> set (split_on CHR '','' (squeeze s)). py_float tok = None)"
      using floats_fail_iff by (metis sum.distinct(1))
    with a floats_length [OF Inr] have "length parts \<noteq> 1" "length parts \<noteq> 2" by auto
    with Inr a show ?thesis
      by (simp add: parse_deformation_potential_unfold bind_err_def)
  qed
qed

theorem format_error_message_witness:
  "CHR '':'' \<in> set ''1:2: 3:4'' \<and> length (split_on CHR '':'' (squeeze ''1:2: 3:4'')) \<noteq> 3
   \<and> parse_doping exact_np ''1:2: 3:4'' = Inl (ValueError ''ERROR: Unrecognised doping format: 1:2:3:4'')
   \<and> parse_temperatures exact_np ''1:2: 3:4''
       = Inl (ValueError ''ERROR: Unrecognised temperature format: 1:2:3:4'')
   \<and> \<not> py_in ''h5'' '' 1, 2 ,3 '' \<and> length (split_on CHR '','' (squeeze '' 1, 2 ,3 '')) \<notin> {1, 2}
   \<and> parse_deformation_potential '' 1, 2 ,3 ''
       = Inl (ValueError ''ERROR: Unrecognised deformation potential format: 1,2,3'')"
  using format_error_message [of exact_np "''1:2: 3:4''"] format_error_message [of exact_np "'' 1, 2 ,3 ''"]
  by (simp add: parse_doping_def parse_temperatures_def parse_deformation_potential_def squeeze_def
      except_ValueError_def bind_err_def exact_np_def float_eval)

subsection \<open>\<open>validate_settings\<close>: the key set\<close>

lemma getitem_Inr: "getitem d k = Inr v \<Longrightarrow> k \<in> fst ` set d"
  by (auto simp: getitem_def split: option.splits dest: map_of_SomeD intro: rev_image_eqI)

lemma update_present_keys: "k \<in> fst ` set d \<Longrightarrow> map fst (AList.update k v d) = map fst d"
  by (simp add: update_keys)

lemma bind_err_Inr: "bind_err m f = Inr y \<longleftrightarrow> (\<exists>x. m = Inr x \<and> f x = Inr y)"
  by (cases m) (auto simp: bind_err_def)

lemma norm_step_keys:
  assumes "bind_err (getitem s k) f = Inr s'"
    and "\<And>v. f v = Inr s' \<Longrightarrow> s' = s \<or> (\<exists>w. s' = AList.update k w s)"
  shows "map fst s' = map fst s"
proof -
  from assms(1) obtain v where g: "getitem s k = Inr v" and f: "f v = Inr s'"
    unfolding bind_err_Inr by blast
  from assms(2) [OF f] update_present_keys [OF getitem_Inr [OF g]] show ?thesis by auto
qed

lemma norm_doping_keys: "norm_doping np s = Inr s' \<Longrightarrow> map fst s' = map fst s"
  unfolding norm_doping_def
  by (erule norm_step_keys) (auto simp: bind_err_Inr split: if_splits sval.splits)

lemma norm_temperatures_keys: "norm_temperatures np s = Inr s' \<Longrightarrow> map fst s' = map fst s"
  unfolding norm_temperatures_def
  by (erule norm_step_keys) (auto simp: bind_err_Inr split: if_splits sval.splits)

lemma norm_deformation_keys: "norm_deformation s = Inr s' \<Longrightarrow> map fst s' = map fst s"
  unfolding norm_deformation_def
  by (erule norm_step_keys) (auto simp: bind_err_Inr split: if_splits sval.splits)

lemma norm_tensor_keys: "norm_tensor np k s = Inr s' \<Longrightarrow> map fst s' = map fst s"
  unfolding norm_tensor_def
  by (erule norm_step_keys) (auto simp: bind_err_Inr split: if_splits)

lemma norm_elastic_keys: "norm_elastic np s = Inr s' \<Longrightarrow> map fst s' = map fst s"
  unfolding norm_elastic_def
  by (erule norm_step_keys) (auto simp: bind_err_Inr split: if_splits)

lemma norm_arrays_keys:
  assumes "norm_arrays np s = Inr s'"
  shows "map fst s' = map fst s"
proof -
  from assms obtain d da t ta where
    d: "getitem s ''doping'' = Inr d"
    and t: "getitem (AList.update ''doping'' (SArr da) s) ''temperatures'' = Inr t"
    and s': "s' = AList.update ''temperatures'' (SArr ta) (AList.update ''doping'' (SArr da) s)"
    unfolding norm_arrays_def Let_def bind_err_Inr by auto
  from update_present_keys [OF getitem_Inr [OF d]] update_present_keys [OF getitem_Inr [OF t]] s'
  show ?thesis by simp
qed

lemma bind_err_InrE:
  assumes "bind_err m f = Inr y"
  obtains x where "m = Inr x" "f x = Inr y"
  using assms unfolding bind_err_Inr by blast

lemma normalise_keys:
  assumes "normalise np s = Inr s'"
  shows "map fst s' = map fst s"
proof -
  from assms [unfolded normalise_def] obtain s1 where
    1: "norm_doping np s = Inr s1"
    and r1: "bind_err (norm_temperatures np s1) (\<lambda>settings.
      bind_err (norm_deformation settings) (\<lambda>settings.
      bind_err (norm_tensor np ''static_dielectric'' settings) (\<lambda>settings.
      bind_err (norm_tensor np ''high_frequency_dielectric'' settings) (\<lambda>settings.
      bind_err (norm_elastic np settings) (\<lambda>settings.
      norm_arrays np settings))))) = Inr s'"
    by (rule bind_err_InrE)
  from r1 obtain s2 where
    2: "norm_temperatures np s1 = Inr s2"
    and r2: "bind_err (norm_deformation s2) (\<lambda>settings.
      bind_err (norm_tensor np ''static_dielectric'' settings) (\<lambda>settings.
      bind_err (norm_tensor np ''high_frequency_dielectric'' settings) (\<lambda>settings.
      bind_err (norm_elastic np settings) (\<lambda>settings.
      norm_arrays np settings)))) = Inr s'"
    by (rule bind_err_InrE)
  from r2 obtain s3 where
    3: "norm_deformation s2 = Inr s3"
    and r3: "bind_err (norm_tensor np ''static_dielectric'' s3) (\<lambda>settings.
      bind_err (norm_tensor np ''high_frequency_dielectric'' settings) (\<lambda>settings.
      bind_err (norm_elastic np settings) (\<lambda>settings.
      norm_arrays np settings))) = Inr s'"
    by (rule bind_err_InrE)
  from r3 obtain s4 where
    4: "norm_tensor np ''static_dielectric'' s3 = Inr s4"
    and r4: "bind_err (norm_tensor np ''high_frequency_dielectric'' s4) (\<lambda>settings.
      bind_err (norm_elastic np settings) (\<lambda>settings.
      norm_arrays np settings)) = Inr s'"
    by (rule bind_err_InrE)
  from r4 obtain s5 where
    5: "norm_tensor np ''high_frequency_dielectric'' s4 = Inr s5"
    and r5: "bind_err (norm_elastic np s5) (\<lambda>settings. norm_arrays np settings) = Inr s'"
    by (rule bind_err_InrE)
  from r5 obtain s6 where
    6: "norm_elastic np s5 = Inr s6" and 7: "norm_arrays np s6 = Inr s'"
    by (rule bind_err_InrE)
  have "map fst s' = map fst s6" using 7 by (rule norm_arrays_keys)
  also have "\<dots> = map fst s5" using 6 by (rule norm_elastic_keys)
  also have "\<dots> = map fst s4" using 5 by (rule norm_tensor_keys)
  also have "\<dots> = map fst s3" using 4 by (rule norm_tensor_keys)
  also have "\<dots> = map fst s2" using 3 by (rule norm_deformation_keys)
  also have "\<dots> = map fst s1" using 2 by (rule norm_temperatures_keys)
  also have "\<dots> = map fst s" using 1 by (rule norm_doping_keys)
  finally show ?thesis .
qed

lemma dict_update_keys: "fst ` set (dict_update d other) = fst ` set d \<union> fst ` set other"
  unfolding dict_update_def
  by (induction other arbitrary: d) (auto simp: dom_update)

lemma check_keys_Inr: "check_keys defaults ks = Inr u \<longleftrightarrow> set ks \<subseteq> fst ` set defaults"
  by (induction ks) auto

lemma check_keys_Inl:
  "check_keys defaults ks = Inl e \<Longrightarrow>
     \<exists>k \<in> set ks. k \<notin> fst ` set defaults \<and> e = ValueError (''Unrecognised setting: '' @ k)"
  by (induction ks) (auto split: if_splits)

text \<open>
  C3 as stated fails where a value does not normalise: the type checks run before the
  key check. With keys inside the schema, \<open>{"doping": "1:2:3:4"}\<close> returns no mapping
  but raises the doping format error; with an unknown key next to \<open>"doping": "abc"\<close>, the
  error raised is the doping format error, not \<open>UnrecognisedSetting\<close>.
\<close>

theorem validate_settings_before_key_check:
  "validate_settings exact_np example_defaults [(''doping'', SStr ''1:2:3:4'')]
     = Inl (ValueError ''ERROR: Unrecognised doping format: 1:2:3:4'')
   \<and> validate_settings exact_np example_defaults
         [(''unknown_key'', SNum (Finite 1)), (''doping'', SStr ''abc'')]
     = Inl (ValueError ''ERROR: Unrecognised doping format: abc'')"
  by (simp add: validate_settings_def dict_update_def example_defaults_def normalise_def
      norm_doping_def getitem_def bind_err_def
      parse_doping_def squeeze_def except_ValueError_def exact_np_def float_eval)

text \<open>
  C3, amended: for user settings whose keys all belong to the default schema,
  \<open>validate_settings\<close> returns the normalised merged mapping whenever normalising the
  values succeeds, and its key set is exactly the schema's; for user settings with a key
  outside the schema it raises \<open>UnrecognisedSetting\<close> for such a key whenever normalising
  succeeds; when normalising raises, that error is raised in both cases; and whenever
  \<open>validate_settings\<close> returns a mapping, its key set is the schema's and no user key was
  outside it.
\<close>

theorem validate_settings_key_set:
  "(fst ` set user_settings \<subseteq> fst ` set defaults \<longrightarrow>
      (\<forall>s. normalise np (dict_update defaults user_settings) = Inr s
           \<longrightarrow> validate_settings np defaults user_settings = Inr s
               \<and> fst ` set s = fst ` set defaults))
   \<and> (\<not> fst ` set user_settings \<subseteq> fst ` set defaults \<longrightarrow>
      (\<forall>s. normalise np (dict_update defaults user_settings) = Inr s
           \<longrightarrow> (\<exists>k \<in> fst ` set user_settings. k \<notin> fst ` set defaults
                 \<and> validate_settings np defaults user_settings
                     = Inl (ValueError (''Unrecognised setting: '' @ k)))))
   \<and> (\<forall>e. normalise np (dict_update defaults user_settings) = Inl e
           \<longrightarrow> validate_settings np defaults user_settings = Inl e)
   \<and> (\<forall>s. validate_settings np defaults user_settings = Inr s
           \<longrightarrow> fst ` set s = fst ` set defaults
               \<and> fst ` set user_settings \<subseteq> fst ` set defaults)"
proof -
  have keys: "fst ` set s = fst ` set defaults \<union> fst ` set user_settings"
    if "normalise np (dict_update defaults user_settings) = Inr s" for s
  proof -
    from normalise_keys [OF that] have "set (map fst s) = set (map fst (dict_update defaults user_settings))"
      by simp
    then show ?thesis by (simp add: dict_update_keys)
  qed
  have a: "validate_settings np defaults user_settings = Inr s \<and> fst ` set s = fst ` set defaults"
    if "fst ` set user_settings \<subseteq> fst ` set defaults"
      and n: "normalise np (dict_update defaults user_settings) = Inr s" for s
  proof -
    from keys [OF n] that(1) have k: "fst ` set s = fst ` set defaults" by auto
    then have "check_keys defaults (map fst s) = Inr ()" by (simp add: check_keys_Inr)
    with n k show ?thesis by (simp add: validate_settings_def bind_err_def)
  qed
  have b: "\<exists>k \<in> fst ` set user_settings. k \<notin> fst ` set defaults
                 \<and> validate_settings np defaults user_settings
                     = Inl (ValueError (''Unrecognised setting: '' @ k))"
    if "\<not> fst ` set user_settings \<subseteq> fst ` set defaults"
      and n: "normalise np (dict_update defaults user_settings) = Inr s" for s
  proof -
    from keys [OF n] that(1) have "\<not> set (map fst s) \<subseteq> fst ` set defaults" by auto
    then obtain e where e: "check_keys defaults (map fst s) = Inl e"
      using check_keys_Inr [of defaults "map fst s"] by (cases "check_keys defaults (map fst s)") auto
    from check_keys_Inl [OF e] obtain k where
      k: "k \<in> set (map fst s)" "k \<notin> fst ` set defaults" "e = ValueError (''Unrecognised setting: '' @ k)"
      by blast
    with keys [OF n] have "k \<in> fst ` set user_settings" by auto
    moreover from n e k(3) have "validate_settings np defaults user_settings
        = Inl (ValueError (''Unrecognised setting: '' @ k))"
      by (simp add: validate_settings_def bind_err_def)
    ultimately show ?thesis using k(2) by blast
  qed
  have c: "validate_settings np defaults user_settings = Inl e"
    if "normalise np (dict_update defaults user_settings) = Inl e" for e
    using that by (simp add: validate_settings_def bind_err_def)
  have d: "fst ` set s = fst ` set defaults \<and> fst ` set user_settings \<subseteq> fst ` set defaults"
    if v: "validate_settings np defaults user_settings = Inr s" for s
  proof -
    from v obtain s0 where n: "normalise np (dict_update defaults user_settings) = Inr s0"
      and ck: "bind_err (check_keys defaults (map fst s0)) (\<lambda>_. Inr s0) = Inr s"
      unfolding validate_settings_def Let_def bind_err_Inr by blast
    from ck have "s0 = s" and "check_keys defaults (map fst s0) = Inr ()"
      unfolding bind_err_Inr by auto
    with keys [OF n] show ?thesis by (auto simp: check_keys_Inr)
  qed
  from a b c d show ?thesis by blast
qed

theorem validate_settings_key_set_witness:
  "fst ` set [(''doping'', SNum (Finite 5)), (''static_dielectric'', SNum (Finite 2))]
     \<subseteq> fst ` set example_defaults
   \<and> validate_settings exact_np example_defaults
        [(''doping'', SNum (Finite 5)), (''static_dielectric'', SNum (Finite 2))]
     = Inr [(''doping'', SArr (NdArr [1] [Finite 5])),
            (''temperatures'', SArr (NdArr [1] [Finite 300])),
            (''deformation_potential'', SNone),
            (''static_dielectric'',
               SArr (NdArr [3, 3] [Finite 2, Finite 0, Finite 0, Finite 0, Finite 2, Finite 0,
                                   Finite 0, Finite 0, Finite 2])),
            (''high_frequency_dielectric'', SNone),
            (''elastic_constant'', SNone),
            (''interpolation_factor'', SNum (Finite 10))]
   \<and> \<not> fst ` set [(''unknown_key'', SNum (Finite 1))] \<subseteq> fst ` set example_defaults
   \<and> validate_settings exact_np example_defaults [(''unknown_key'', SNum (Finite 1))]
     = Inl (ValueError ''Unrecognised setting: unknown_key'')
   \<and> normalise exact_np (dict_update example_defaults [(''doping'', SStr ''abc'')])
     = Inl (ValueError ''ERROR: Unrecognised doping format: abc'')"
  using validate_settings_key_set [of "[(''doping'', SNum (Finite 5)), (''static_dielectric'', SNum (Finite 2))]"
      example_defaults exact_np]
    validate_settings_key_set [of "[(''unknown_key'', SNum (Finite 1))]" example_defaults exact_np]
    validate_settings_key_set [of "[(''doping'', SStr ''abc'')]" example_defaults exact_np]
  by (simp add: validate_settings_def dict_update_def example_defaults_def normalise_def
      norm_doping_def norm_temperatures_def norm_deformation_def norm_tensor_def norm_elastic_def
      norm_arrays_def getitem_def bind_err_def nums_of_def
      cast_tensor_def np_scale_def np_eye_def upt_rec
      parse_doping_def squeeze_def except_ValueError_def exact_np_def float_eval)

end
